theory Spec2Isabelle
  imports Main "HOL-Library.Sublist"
begin

section \<open>The DigitalOcean domain module (digital\_ocean\_domain.py)\<close>

text \<open>
  A shallow embedding of \<^verbatim>\<open>lib/ansible/modules/cloud/digital_ocean/digital_ocean_domain.py\<close>:
  the class \<^verbatim>\<open>DoManager\<close> (\<^verbatim>\<open>find\<close>, \<^verbatim>\<open>add\<close>, \<^verbatim>\<open>all_domain_records\<close>,
  \<^verbatim>\<open>destroy_domain\<close>, \<^verbatim>\<open>edit_domain_record\<close>), the function \<^verbatim>\<open>core\<close> and the
  function \<^verbatim>\<open>main\<close>.

  The HTTP helper (\<^verbatim>\<open>DigitalOceanHelper\<close>) and \<^verbatim>\<open>AnsibleModule\<close> are imported by the
  module and are not part of it. The helper is a parameter of the model: a record of the
  four methods \<^verbatim>\<open>get\<close>, \<^verbatim>\<open>post\<close>, \<^verbatim>\<open>put\<close>, \<^verbatim>\<open>delete\<close> over a provider state of
  any type. Every call may raise; the model of each call also appends the request to a
  log, so that the calls an invocation issues can be counted.
\<close>

subsection \<open>Values\<close>

text \<open>
  JSON payloads as Python sees them after decoding. Numbers are kept as integers: the
  module never computes with a number of a payload, it only tests membership and
  subscripts, and these behave alike on every number.
\<close>

datatype jval =
    JNull
  | JBool bool
  | JInt int
  | JStr string
  | JList "jval list"
  | JObj "(string \<times> jval) list"

text \<open>The exceptions (subclasses of \<^verbatim>\<open>Exception\<close>) that the module can meet.\<close>

datatype exn =
    KeyError string
  | TypeError
  | AttributeError
  | TransportError string

text \<open>\<^verbatim>\<open>x[k]\<close> for a string key \<^verbatim>\<open>k\<close>: only a dict can be subscripted by a string.\<close>

fun py_getitem :: "jval \<Rightarrow> string \<Rightarrow> exn + jval" where
  "py_getitem (JObj kvs) k = (case map_of kvs k of None \<Rightarrow> Inl (KeyError k) | Some v \<Rightarrow> Inr v)"
| "py_getitem _ k = Inl TypeError"

text \<open>
  \<^verbatim>\<open>k in x\<close> for a string \<^verbatim>\<open>k\<close>: a key of a dict, an element of a list, a substring of
  a string; \<^verbatim>\<open>None\<close>, booleans and numbers are not iterable.
\<close>

fun py_in :: "string \<Rightarrow> jval \<Rightarrow> exn + bool" where
  "py_in k (JObj kvs) = Inr (map_of kvs k \<noteq> None)"
| "py_in k (JList xs) = Inr (List.member xs (JStr k))"
| "py_in k (JStr s) = Inr (sublist k s)"
| "py_in k _ = Inl TypeError"

text \<open>\<^verbatim>\<open>'%s' % x\<close> for an integer, a string, and \<^verbatim>\<open>None\<close>.\<close>

definition digit_char :: "nat \<Rightarrow> char" where
  "digit_char d = ''0123456789'' ! d"

fun nat_str :: "nat \<Rightarrow> string" where
  "nat_str n = (if n < 10 then [digit_char n] else nat_str (n div 10) @ [digit_char (n mod 10)])"

declare nat_str.simps [simp del]

definition int_str :: "int \<Rightarrow> string" where
  "int_str i = (if i < 0 then CHR ''-'' # nat_str (nat (- i)) else nat_str (nat i))"

definition fmt_int :: "int option \<Rightarrow> string" where
  "fmt_int x = (case x of None \<Rightarrow> ''None'' | Some i \<Rightarrow> int_str i)"

definition fmt_str :: "string option \<Rightarrow> string" where
  "fmt_str x = (case x of None \<Rightarrow> ''None'' | Some s \<Rightarrow> s)"

subsection \<open>The data model\<close>

text \<open>
  The entries of a domain listing are objects read by attribute (\<^verbatim>\<open>domain.id\<close>,
  \<^verbatim>\<open>domain.name\<close>), the entries of a record listing likewise (\<^verbatim>\<open>record.name\<close>,
  \<^verbatim>\<open>record.type\<close>, \<^verbatim>\<open>record.data\<close>).
\<close>

record domain =
  dom_id :: int
  dom_name :: string

record domain_record =
  rec_name :: string
  rec_type :: string
  rec_data :: string

text \<open>
  \<^verbatim>\<open>module.params\<close>: \<^verbatim>\<open>state\<close> has the choices present and absent (default present),
  \<^verbatim>\<open>name\<close> and \<^verbatim>\<open>ip\<close> are strings, \<^verbatim>\<open>id\<close> is an integer; an option that was not
  given is \<^verbatim>\<open>None\<close>.
\<close>

datatype desired_state = Present | Absent

record params =
  p_state :: desired_state
  p_name :: "string option"
  p_id :: "int option"
  p_ip :: "string option"

subsection \<open>The HTTP helper\<close>

type_synonym payload = "(string \<times> string option) list"

datatype request =
    Get string
  | Post string payload
  | Put string payload
  | Delete string

text \<open>
  What \<^verbatim>\<open>self.get\<close> returns is subscripted with \<^verbatim>\<open>'domains'\<close> or
  \<^verbatim>\<open>'domain_records'\<close>; a key that the reply does not have is \<^verbatim>\<open>None\<close> here and a
  \<^verbatim>\<open>KeyError\<close> in \<^verbatim>\<open>all_domains\<close> and \<^verbatim>\<open>all_domain_records\<close>.
\<close>

record get_reply =
  domains :: "domain list option"
  domain_records :: "domain_record list option"

text \<open>What \<^verbatim>\<open>self.post\<close> returns is read through \<^verbatim>\<open>status_code\<close> and \<^verbatim>\<open>json\<close>.\<close>

record response =
  status_code :: int
  json :: jval

record 's helper =
  get :: "string \<Rightarrow> 's \<Rightarrow> (exn + get_reply) \<times> 's"
  post :: "string \<Rightarrow> payload \<Rightarrow> 's \<Rightarrow> (exn + response) \<times> 's"
  put :: "string \<Rightarrow> payload \<Rightarrow> 's \<Rightarrow> (exn + jval) \<times> 's"
  delete :: "string \<Rightarrow> 's \<Rightarrow> (exn + jval) \<times> 's"

text \<open>The world of one invocation: the provider's state and the requests issued so far.\<close>

type_synonym 's world = "'s \<times> request list"

definition http_get :: "'s helper \<Rightarrow> string \<Rightarrow> 's world \<Rightarrow> (exn + get_reply) \<times> 's world" where
  "http_get H path w =
     (case get H path (fst w) of (r, s') \<Rightarrow> (r, (s', snd w @ [Get path])))"

definition http_post :: "'s helper \<Rightarrow> string \<Rightarrow> payload \<Rightarrow> 's world \<Rightarrow> (exn + response) \<times> 's world" where
  "http_post H path d w =
     (case post H path d (fst w) of (r, s') \<Rightarrow> (r, (s', snd w @ [Post path d])))"

definition http_put :: "'s helper \<Rightarrow> string \<Rightarrow> payload \<Rightarrow> 's world \<Rightarrow> (exn + jval) \<times> 's world" where
  "http_put H path d w =
     (case put H path d (fst w) of (r, s') \<Rightarrow> (r, (s', snd w @ [Put path d])))"

definition http_delete :: "'s helper \<Rightarrow> string \<Rightarrow> 's world \<Rightarrow> (exn + jval) \<times> 's world" where
  "http_delete H path w =
     (case delete H path (fst w) of (r, s') \<Rightarrow> (r, (s', snd w @ [Delete path])))"

text \<open>The write calls of a log: create, update and delete.\<close>

fun is_write :: "request \<Rightarrow> bool" where
  "is_write (Get _) = False"
| "is_write _ = True"

definition writes :: "request list \<Rightarrow> request list" where
  "writes log = filter is_write log"

subsection \<open>DoManager\<close>

record do_manager =
  domain_name :: "string option"
  domain_ip :: "string option"
  domain_id :: "int option"

definition DoManager :: "params \<Rightarrow> do_manager" where
  "DoManager p = \<lparr>domain_name = p_name p, domain_ip = p_ip p, domain_id = p_id p\<rparr>"

definition all_domains :: "'s helper \<Rightarrow> 's world \<Rightarrow> (exn + domain list) \<times> 's world" where
  "all_domains H w =
     (case http_get H ''domains/'' w of
        (Inl e, w') \<Rightarrow> (Inl e, w')
      | (Inr resp, w') \<Rightarrow>
          (case domains resp of
             None \<Rightarrow> (Inl (KeyError ''domains''), w')
           | Some ds \<Rightarrow> (Inr ds, w')))"

text \<open>
  The loop of \<^verbatim>\<open>find\<close>: the first entry whose id is the manager's id or, when its id is
  another, whose name is the manager's name. The manager's id and name are not
  \<^verbatim>\<open>None\<close> where the loop runs.
\<close>

fun find_loop :: "int \<Rightarrow> string \<Rightarrow> domain list \<Rightarrow> domain option" where
  "find_loop i n [] = None"
| "find_loop i n (d # ds) =
     (if dom_id d = i then Some d
      else if dom_name d = n then Some d
      else find_loop i n ds)"

text \<open>
  \<^verbatim>\<open>find\<close> returns the entry or \<^verbatim>\<open>False\<close>; \<^verbatim>\<open>False\<close> is \<open>None\<close> here. An entry is
  an object, which \<^verbatim>\<open>if not domain\<close> in \<^verbatim>\<open>core\<close> takes for true.
\<close>

definition find :: "'s helper \<Rightarrow> do_manager \<Rightarrow> 's world \<Rightarrow> (exn + domain option) \<times> 's world" where
  "find H m w =
     (case (domain_name m, domain_id m) of
        (Some n, Some i) \<Rightarrow>
          (case all_domains H w of
             (Inl e, w') \<Rightarrow> (Inl e, w')
           | (Inr ds, w') \<Rightarrow> (Inr (find_loop i n ds), w'))
      | _ \<Rightarrow> (Inr None, w))"

definition add :: "'s helper \<Rightarrow> do_manager \<Rightarrow> 's world \<Rightarrow> (exn + jval) \<times> 's world" where
  "add H m w =
     (case http_post H ''domains/''
             [(''name'', domain_name m), (''ip_address'', domain_ip m)] w of
        (Inl e, w') \<Rightarrow> (Inl e, w')
      | (Inr resp, w') \<Rightarrow>
          (if status_code resp = 201 then (py_getitem (json resp) ''domain'', w')
           else (Inr (json resp), w')))"

definition all_domain_records ::
  "'s helper \<Rightarrow> do_manager \<Rightarrow> 's world \<Rightarrow> (exn + domain_record list) \<times> 's world" where
  "all_domain_records H m w =
     (case http_get H (''domains/'' @ fmt_int (domain_id m) @ ''/records/'') w of
        (Inl e, w') \<Rightarrow> (Inl e, w')
      | (Inr resp, w') \<Rightarrow>
          (case domain_records resp of
             None \<Rightarrow> (Inl (KeyError ''domain_records''), w')
           | Some rs \<Rightarrow> (Inr rs, w')))"

definition destroy_domain :: "'s helper \<Rightarrow> do_manager \<Rightarrow> 's world \<Rightarrow> (exn + bool) \<times> 's world" where
  "destroy_domain H m w =
     (case http_delete H (''domains/'' @ fmt_int (domain_id m)) w of
        (Inl e, w') \<Rightarrow> (Inl e, w')
      | (Inr _, w') \<Rightarrow> (Inr True, w'))"

definition edit_domain_record :: "'s helper \<Rightarrow> do_manager \<Rightarrow> 's world \<Rightarrow> (exn + jval) \<times> 's world" where
  "edit_domain_record H m w =
     (case http_put H (''domains/'' @ fmt_int (domain_id m) @ ''/records/'' @ fmt_str (domain_ip m))
             [(''name'', domain_name m)] w of
        (Inl e, w') \<Rightarrow> (Inl e, w')
      | (Inr resp, w') \<Rightarrow> (py_getitem resp ''domain_record'', w'))"

subsection \<open>core and main\<close>

text \<open>
  \<^verbatim>\<open>module.exit_json\<close> and \<^verbatim>\<open>module.fail_json\<close> print the result and end the process
  (\<^verbatim>\<open>SystemExit\<close>, which \<^verbatim>\<open>except Exception\<close> does not catch), so \<^verbatim>\<open>core\<close> ends in one
  of four ways: a call of \<^verbatim>\<open>exit_json\<close>, a call of \<^verbatim>\<open>fail_json\<close>, an exception, or
  a plain return with no result reported.

  \<open>Exit_json c d\<close> is \<^verbatim>\<open>exit_json(changed=c, domain=d)\<close>, with \<open>None\<close> where the call
  has no \<^verbatim>\<open>domain\<close> argument; \<open>Fail_json c m\<close> is \<^verbatim>\<open>fail_json(changed=c, msg=m)\<close>;
  \<open>Fail_exception e\<close> is the report of \<^verbatim>\<open>main\<close> for an exception \<open>e\<close> of \<^verbatim>\<open>core\<close>,
  \<^verbatim>\<open>fail_json(msg=to_native(e), exception=traceback.format_exc())\<close>;
  \<open>Fail_validation\<close> is the rejection of the arguments by \<^verbatim>\<open>AnsibleModule\<close>;
  \<open>No_report\<close> is a return of \<^verbatim>\<open>core\<close> with neither call made.
\<close>

datatype domain_arg =
    Created jval
  | Refreshed "domain option"

datatype outcome =
    Exit_json bool "domain_arg option"
  | Fail_json bool jval
  | Fail_exception exn
  | Fail_validation
  | No_report

text \<open>
  The loop over the records: \<^verbatim>\<open>at_record\<close> starts as \<^verbatim>\<open>None\<close> and every record with
  name \<^verbatim>\<open>"@"\<close> and type \<^verbatim>\<open>'A'\<close> overwrites it, so the last one stays.
\<close>

fun at_record_loop :: "domain_record option \<Rightarrow> domain_record list \<Rightarrow> domain_record option" where
  "at_record_loop at_record [] = at_record"
| "at_record_loop at_record (r # rs) =
     (if rec_name r = ''@'' \<and> rec_type r = ''A''
      then at_record_loop (Some r) rs
      else at_record_loop at_record rs)"

definition core_present_found :: "'s helper \<Rightarrow> do_manager \<Rightarrow> params \<Rightarrow> 's world \<Rightarrow> (exn + outcome) \<times> 's world" where
  "core_present_found H m p w =
     (case all_domain_records H m w of
        (Inl e, w1) \<Rightarrow> (Inl e, w1)
      | (Inr records, w1) \<Rightarrow>
          (case at_record_loop None records of
             None \<Rightarrow> (Inl AttributeError, w1)
           | Some at_record \<Rightarrow>
               (if Some (rec_data at_record) \<noteq> p_ip p then
                  (case edit_domain_record H m w1 of
                     (Inl e, w2) \<Rightarrow> (Inl e, w2)
                   | (Inr _, w2) \<Rightarrow>
                       (case find H m w2 of
                          (Inl e, w3) \<Rightarrow> (Inl e, w3)
                        | (Inr d, w3) \<Rightarrow> (Inr (Exit_json True (Some (Refreshed d))), w3)))
                else (Inr No_report, w1))))"

definition core_present_missing :: "'s helper \<Rightarrow> do_manager \<Rightarrow> 's world \<Rightarrow> (exn + outcome) \<times> 's world" where
  "core_present_missing H m w =
     (case add H m w of
        (Inl e, w1) \<Rightarrow> (Inl e, w1)
      | (Inr domain, w1) \<Rightarrow>
          (case py_in ''message'' domain of
             Inl e \<Rightarrow> (Inl e, w1)
           | Inr True \<Rightarrow>
               (case py_getitem domain ''message'' of
                  Inl e \<Rightarrow> (Inl e, w1)
                | Inr msg \<Rightarrow> (Inr (Fail_json False msg), w1))
           | Inr False \<Rightarrow> (Inr (Exit_json True (Some (Created domain))), w1)))"

definition core :: "'s helper \<Rightarrow> params \<Rightarrow> 's world \<Rightarrow> (exn + outcome) \<times> 's world" where
  "core H p w =
     (let do_manger = DoManager p in
      case find H do_manger w of
        (Inl e, w0) \<Rightarrow> (Inl e, w0)
      | (Inr domain, w0) \<Rightarrow>
          (case p_state p of
             Present \<Rightarrow>
               (case domain of
                  None \<Rightarrow> core_present_missing H do_manger w0
                | Some _ \<Rightarrow> core_present_found H do_manger p w0)
           | Absent \<Rightarrow>
               (case domain of
                  None \<Rightarrow> (Inr (Fail_json False (JStr ''Domain not found.'')), w0)
                | Some _ \<Rightarrow>
                    (case destroy_domain H do_manger w0 of
                       (Inl e, w1) \<Rightarrow> (Inl e, w1)
                     | (Inr delete_event, w1) \<Rightarrow> (Inr (Exit_json delete_event None), w1)))))"

text \<open>
  Modelled from the spec: \<^verbatim>\<open>AnsibleModule\<close> is imported, not defined, by the module.
  \<^verbatim>\<open>main\<close> hands it \<^verbatim>\<open>required_one_of=(['id', 'name'],)\<close>; the spec says that at least
  one of \<^verbatim>\<open>id\<close> and \<^verbatim>\<open>name\<close> is required and that an invocation with neither is
  rejected before any network call.
\<close>

definition required_one_of :: "params \<Rightarrow> bool" where
  "required_one_of p = (case (p_id p, p_name p) of (None, None) \<Rightarrow> False | _ \<Rightarrow> True)"

text \<open>
  \<^verbatim>\<open>main\<close> builds the module, runs \<^verbatim>\<open>core\<close> and turns an exception into a failure
  report. An invocation starts with an empty log.
\<close>

definition main :: "'s helper \<Rightarrow> params \<Rightarrow> 's \<Rightarrow> outcome \<times> 's world" where
  "main H p s =
     (if required_one_of p then
        (case core H p (s, []) of
           (Inl e, w) \<Rightarrow> (Fail_exception e, w)
         | (Inr r, w) \<Rightarrow> (r, w))
      else (Fail_validation, (s, [])))"

subsection \<open>A reference provider\<close>

text \<open>
  Modelled from the spec: the provider is remote and the helper that reaches it is not
  part of the module. This provider follows the API surface of the spec, for the
  concrete runs below: \<^verbatim>\<open>GET domains/\<close> lists the domains,
  \<^verbatim>\<open>GET domains/{id}/records/\<close> lists the records of a domain,
  \<^verbatim>\<open>POST domains/\<close> with a name and an ip\_address creates a domain with its root A
  record or answers with an error payload that carries a message,
  \<^verbatim>\<open>PUT domains/{id}/records/{record_id}\<close> with a name renames that record, and
  \<^verbatim>\<open>DELETE domains/{id}\<close> removes the domain.
\<close>

record zone =
  zone_domain :: domain
  zone_records :: "(int \<times> domain_record) list"

type_synonym provider = "zone list"

definition not_found_payload :: jval where
  "not_found_payload =
     JObj [(''id'', JStr ''not_found''),
           (''message'', JStr ''The resource you were accessing could not be found.'')]"

definition records_path :: "zone \<Rightarrow> string" where
  "records_path z = ''domains/'' @ int_str (dom_id (zone_domain z)) @ ''/records/''"

definition provider_get :: "string \<Rightarrow> provider \<Rightarrow> (exn + get_reply) \<times> provider" where
  "provider_get path zs =
     (if path = ''domains/''
      then (Inr \<lparr>domains = Some (map zone_domain zs), domain_records = None\<rparr>, zs)
      else (case List.find (\<lambda>z. records_path z = path) zs of
              Some z \<Rightarrow>
                (Inr \<lparr>domains = None, domain_records = Some (map snd (zone_records z))\<rparr>, zs)
            | None \<Rightarrow> (Inr \<lparr>domains = None, domain_records = None\<rparr>, zs)))"

definition fresh_id :: "provider \<Rightarrow> int" where
  "fresh_id zs = fold max (map (\<lambda>z. dom_id (zone_domain z)) zs) 0 + 1"

definition provider_post :: "string \<Rightarrow> payload \<Rightarrow> provider \<Rightarrow> (exn + response) \<times> provider" where
  "provider_post path d zs =
     (case (path = ''domains/'', map_of d ''name'', map_of d ''ip_address'') of
        (True, Some (Some n), Some (Some ip)) \<Rightarrow>
          (if List.member (map (\<lambda>z. dom_name (zone_domain z)) zs) n
           then (Inr \<lparr>status_code = 422,
                      json = JObj [(''id'', JStr ''unprocessable_entity''),
                                   (''message'', JStr ''Name already exists'')]\<rparr>, zs)
           else (Inr \<lparr>status_code = 201,
                      json = JObj [(''domain'', JObj [(''name'', JStr n)])]\<rparr>,
                 zs @ [\<lparr>zone_domain = \<lparr>dom_id = fresh_id zs, dom_name = n\<rparr>,
                        zone_records = [(1, \<lparr>rec_name = ''@'', rec_type = ''A'', rec_data = ip\<rparr>)]\<rparr>]))
      | _ \<Rightarrow> (Inr \<lparr>status_code = 422,
                   json = JObj [(''id'', JStr ''unprocessable_entity''),
                                (''message'', JStr ''Name and ip_address are required'')]\<rparr>, zs))"

definition rename_record :: "string \<Rightarrow> string \<Rightarrow> zone \<Rightarrow> zone" where
  "rename_record path n z =
     z\<lparr>zone_records :=
         map (\<lambda>(rid, r). if records_path z @ int_str rid = path then (rid, r\<lparr>rec_name := n\<rparr>) else (rid, r))
             (zone_records z)\<rparr>"

definition record_paths :: "provider \<Rightarrow> string list" where
  "record_paths zs = concat (map (\<lambda>z. map (\<lambda>(rid, r). records_path z @ int_str rid) (zone_records z)) zs)"

definition provider_put :: "string \<Rightarrow> payload \<Rightarrow> provider \<Rightarrow> (exn + jval) \<times> provider" where
  "provider_put path d zs =
     (case (List.member (record_paths zs) path, map_of d ''name'') of
        (True, Some (Some n)) \<Rightarrow>
          (Inr (JObj [(''domain_record'', JObj [(''name'', JStr n)])]), map (rename_record path n) zs)
      | _ \<Rightarrow> (Inr not_found_payload, zs))"

definition provider_delete :: "string \<Rightarrow> provider \<Rightarrow> (exn + jval) \<times> provider" where
  "provider_delete path zs =
     (Inr JNull, filter (\<lambda>z. ''domains/'' @ int_str (dom_id (zone_domain z)) \<noteq> path) zs)"

definition ref_provider :: "provider helper" where
  "ref_provider = \<lparr>get = provider_get, post = provider_post, put = provider_put, delete = provider_delete\<rparr>"

text \<open>One domain, \<^verbatim>\<open>example.com\<close> with id 1, and the records it is given.\<close>

definition example_zone :: "domain_record list \<Rightarrow> provider" where
  "example_zone rs =
     [\<lparr>zone_domain = \<lparr>dom_id = 1, dom_name = ''example.com''\<rparr>,
       zone_records = zip (map int [1 ..< Suc (length rs)]) rs\<rparr>]"

definition root_A :: "string \<Rightarrow> domain_record" where
  "root_A ip = \<lparr>rec_name = ''@'', rec_type = ''A'', rec_data = ip\<rparr>"

section \<open>Properties\<close>

subsection \<open>The log and the results of the methods\<close>

lemma DoManager_simps [simp]:
  "domain_name (DoManager p) = p_name p"
  "domain_ip (DoManager p) = p_ip p"
  "domain_id (DoManager p) = p_id p"
  by (simp_all add: DoManager_def)

lemma required_one_of_iff: "required_one_of p \<longleftrightarrow> p_id p \<noteq> None \<or> p_name p \<noteq> None"
  by (auto simp: required_one_of_def split: option.splits)

lemma writes_append: "writes (xs @ ys) = writes xs @ writes ys"
  by (simp add: writes_def)

lemma writes_Get: "writes [Get path] = []"
  by (simp add: writes_def)

lemma find_not_both:
  "domain_name m = None \<or> domain_id m = None \<Longrightarrow> find H m w = (Inr None, w)"
  by (auto simp: find_def split: option.splits)

lemma all_domains_log: "snd (snd (all_domains H w)) = snd w @ [Get ''domains/'']"
  by (simp add: all_domains_def http_get_def split: prod.splits sum.splits option.splits)

text \<open>The loop of \<^verbatim>\<open>find\<close> returns the first entry that matches by id or by name.\<close>

lemma find_loop_first_match:
  "find_loop i n ds = List.find (\<lambda>d. dom_id d = i \<or> dom_name d = n) ds"
  by (induction ds) auto

text \<open>With both the id and the name given, \<^verbatim>\<open>find\<close> lists the domains once.\<close>

lemma find_both_supplied:
  assumes "domain_name m = Some n" and "domain_id m = Some i"
    and "get H ''domains/'' (fst w) = (Inr reply, s1)" and "domains reply = Some ds"
  shows "find H m w = (Inr (find_loop i n ds), (s1, snd w @ [Get ''domains/'']))"
  using assms by (simp add: find_def all_domains_def http_get_def)

text \<open>A domain is found only when both are given, and then after one listing call.\<close>

lemma find_found:
  assumes "find H m w = (Inr (Some d), w1)"
  shows "domain_name m \<noteq> None \<and> domain_id m \<noteq> None \<and> snd w1 = snd w @ [Get ''domains/'']"
proof -
  from assms obtain n i where ni: "domain_name m = Some n" "domain_id m = Some i"
    by (cases "domain_name m"; cases "domain_id m") (auto simp: find_def)
  with assms have "snd w1 = snd (snd (all_domains H w))"
    by (auto simp: find_def split: prod.splits sum.splits)
  with ni show ?thesis by (simp add: all_domains_log)
qed

lemma find_writes: "writes (snd (snd (find H m w))) = writes (snd w)"
proof (cases "domain_name m = None \<or> domain_id m = None")
  case True
  then show ?thesis by (simp add: find_not_both)
next
  case False
  then obtain n i where "domain_name m = Some n" "domain_id m = Some i" by auto
  then have "snd (snd (find H m w)) = snd (snd (all_domains H w))"
    by (simp add: find_def split: prod.splits sum.splits)
  then show ?thesis by (simp add: all_domains_log writes_append writes_Get)
qed

lemma add_log:
  "snd (snd (add H m w)) =
     snd w @ [Post ''domains/'' [(''name'', domain_name m), (''ip_address'', domain_ip m)]]"
  by (simp add: add_def http_post_def split: prod.splits sum.splits)

text \<open>
  The update request of \<^verbatim>\<open>edit_domain_record\<close>: its path ends in the manager's ip and
  its payload holds the manager's name and nothing else.
\<close>

lemma edit_domain_record_log:
  "snd (snd (edit_domain_record H m w)) =
     snd w @ [Put (''domains/'' @ fmt_int (domain_id m) @ ''/records/'' @ fmt_str (domain_ip m))
                  [(''name'', domain_name m)]]"
  by (simp add: edit_domain_record_def http_put_def split: prod.splits sum.splits)

lemma destroy_domain_ok:
  assumes "delete H (''domains/'' @ fmt_int (domain_id m)) (fst w) = (Inr r, s2)"
  shows "destroy_domain H m w =
           (Inr True, (s2, snd w @ [Delete (''domains/'' @ fmt_int (domain_id m))]))"
  using assms by (simp add: destroy_domain_def http_delete_def)

text \<open>A payload is never one of its own fields.\<close>

lemma jval_size_member: "(k, d) \<in> set kvs \<Longrightarrow> size d < size (JObj kvs)"
  by (induction kvs) auto

lemma jval_not_own_field: "map_of kvs k = Some d \<Longrightarrow> d \<noteq> JObj kvs"
  using jval_size_member [of k d kvs] by (auto dest: map_of_SomeD)

subsection \<open>The branches of core\<close>

lemma core_not_found:
  assumes "find H (DoManager p) w = (Inr None, w1)"
  shows "core H p w =
     (case p_state p of
        Present \<Rightarrow> core_present_missing H (DoManager p) w1
      | Absent \<Rightarrow> (Inr (Fail_json False (JStr ''Domain not found.'')), w1))"
  using assms by (simp add: core_def Let_def split: desired_state.splits)

lemma core_found:
  assumes "find H (DoManager p) w = (Inr (Some d), w1)"
  shows "core H p w =
     (case p_state p of
        Present \<Rightarrow> core_present_found H (DoManager p) p w1
      | Absent \<Rightarrow>
          (case destroy_domain H (DoManager p) w1 of
             (Inl e, w2) \<Rightarrow> (Inl e, w2)
           | (Inr delete_event, w2) \<Rightarrow> (Inr (Exit_json delete_event None), w2)))"
  using assms by (simp add: core_def Let_def split: desired_state.splits)

lemma core_present_missing_log:
  "snd (snd (core_present_missing H m w)) =
     snd w @ [Post ''domains/'' [(''name'', domain_name m), (''ip_address'', domain_ip m)]]"
proof -
  have "snd (core_present_missing H m w) = snd (add H m w)"
    by (simp add: core_present_missing_def split: prod.splits sum.splits bool.splits)
  then show ?thesis by (simp add: add_log)
qed

text \<open>
  The loop over the records leaves \<^verbatim>\<open>at_record\<close> at \<^verbatim>\<open>None\<close> exactly when no record
  has name \<^verbatim>\<open>"@"\<close> and type \<^verbatim>\<open>'A'\<close>; the comparison then reads \<^verbatim>\<open>None.data\<close>.
\<close>

lemma at_record_loop_filter:
  "at_record_loop acc rs =
     (case filter (\<lambda>r. rec_name r = ''@'' \<and> rec_type r = ''A'') rs of
        [] \<Rightarrow> acc
      | _ \<Rightarrow> Some (last (filter (\<lambda>r. rec_name r = ''@'' \<and> rec_type r = ''A'') rs)))"
  by (induction rs arbitrary: acc) (auto split: list.splits)

lemma at_record_loop_None:
  "at_record_loop None rs = None \<longleftrightarrow>
     filter (\<lambda>r. rec_name r = ''@'' \<and> rec_type r = ''A'') rs = []"
  by (auto simp: at_record_loop_filter split: list.splits)

lemma core_present_found_missing:
  assumes "all_domain_records H m w = (Inr records, w1)"
    and "at_record_loop None records = None"
  shows "core_present_found H m p w = (Inl AttributeError, w1)"
  using assms by (simp add: core_present_found_def)

lemma core_present_found_equal:
  assumes "all_domain_records H m w = (Inr records, w1)"
    and "at_record_loop None records = Some r" and "p_ip p = Some (rec_data r)"
  shows "core_present_found H m p w = (Inr No_report, w1)"
  using assms by (simp add: core_present_found_def)

lemma core_present_found_differs:
  assumes "all_domain_records H m w = (Inr records, w1)"
    and "at_record_loop None records = Some r" and "p_ip p \<noteq> Some (rec_data r)"
    and "edit_domain_record H m w1 = (Inr v, w2)" and "find H m w2 = (Inr d, w3)"
  shows "core_present_found H m p w = (Inr (Exit_json True (Some (Refreshed d))), w3)"
  using assms by (auto simp: core_present_found_def)

subsection \<open>find\<close>

text \<open>
  C9. Where both \<^verbatim>\<open>id\<close> and \<^verbatim>\<open>name\<close> are unset, \<^verbatim>\<open>find\<close> returns not-found at once
  and makes no network call: for every helper and every world the result is not-found
  and the world (the provider's state and the log of requests) is the one it started in.
\<close>

theorem find_both_unset:
  "p_name p = None \<Longrightarrow> p_id p = None \<Longrightarrow> find H (DoManager p) w = (Inr None, w)"
  by (simp add: find_not_both)

theorem find_both_unset_witness:
  "find ref_provider
     (DoManager \<lparr>p_state = Present, p_name = None, p_id = None, p_ip = Some ''1.2.3.4''\<rparr>)
     (example_zone [root_A ''1.2.3.4''], [])
   = (Inr None, (example_zone [root_A ''1.2.3.4''], []))"
  using find_both_unset
    [of "\<lparr>p_state = Present, p_name = None, p_id = None, p_ip = Some ''1.2.3.4''\<rparr>"
        ref_provider "(example_zone [root_A ''1.2.3.4''], [])"]
  by simp

text \<open>
  C3. Where at least one of \<^verbatim>\<open>id\<close> and \<^verbatim>\<open>name\<close> is given, \<^verbatim>\<open>find\<close> should list the
  domains once and return the first entry that matches. The guard of \<^verbatim>\<open>find\<close> is
  \<^verbatim>\<open>name is None or id is None\<close>: with the name \<^verbatim>\<open>example.com\<close> given and no id, on a
  provider that holds the domain \<^verbatim>\<open>example.com\<close>, \<^verbatim>\<open>find\<close> returns not-found and the
  log stays empty. (With both given, \<open>find_both_supplied\<close> and
  \<open>find_loop_first_match\<close> above are what the claim says.)
\<close>

theorem find_name_only_run:
  "find ref_provider
     \<lparr>domain_name = Some ''example.com'', domain_ip = Some ''1.2.3.4'', domain_id = None\<rparr>
     (example_zone [root_A ''1.2.3.4''], [])
   = (Inr None, (example_zone [root_A ''1.2.3.4''], []))"
  by code_simp



subsection \<open>add and the create path\<close>

text \<open>
  C6. For every create request that the helper answers, \<^verbatim>\<open>add\<close> returns the payload
  unchanged when the status is not 201 (created), and, for an answer that carries a
  \<^verbatim>\<open>domain\<close>, it returns that domain exactly when the status is 201. (That the error
  payload carries a \<^verbatim>\<open>message\<close> is the provider's contract, not the module's doing.)
\<close>

theorem add_result:
  assumes "post H ''domains/'' [(''name'', domain_name m), (''ip_address'', domain_ip m)] (fst w)
             = (Inr resp, s')"
  shows "(status_code resp \<noteq> 201 \<longrightarrow> fst (add H m w) = Inr (json resp)) \<and>
         (\<forall>kvs d. json resp = JObj kvs \<longrightarrow> map_of kvs ''domain'' = Some d \<longrightarrow>
            (fst (add H m w) = Inr d \<longleftrightarrow> status_code resp = 201))"
proof -
  have r: "fst (add H m w) =
      (if status_code resp = 201 then py_getitem (json resp) ''domain'' else Inr (json resp))"
    using assms by (simp add: add_def http_post_def)
  show ?thesis
  proof (intro conjI allI impI)
    assume "status_code resp \<noteq> 201"
    with r show "fst (add H m w) = Inr (json resp)" by simp
  next
    fix kvs d
    assume j: "json resp = JObj kvs" and d: "map_of kvs ''domain'' = Some d"
    from d have "d \<noteq> JObj kvs" by (rule jval_not_own_field)
    with r j d show "fst (add H m w) = Inr d \<longleftrightarrow> status_code resp = 201" by auto
  qed
qed

theorem add_result_witness:
  "fst (add ref_provider
          \<lparr>domain_name = Some ''my.example.com'', domain_ip = Some ''127.0.0.1'', domain_id = None\<rparr>
          ([], []))
     = Inr (JObj [(''name'', JStr ''my.example.com'')]) \<and>
   fst (add ref_provider
          \<lparr>domain_name = Some ''example.com'', domain_ip = Some ''127.0.0.1'', domain_id = None\<rparr>
          (example_zone [root_A ''1.2.3.4''], []))
     = Inr (JObj [(''id'', JStr ''unprocessable_entity''), (''message'', JStr ''Name already exists'')])"
proof -
  let ?m = "\<lparr>domain_name = Some ''my.example.com'', domain_ip = Some ''127.0.0.1'',
              domain_id = None\<rparr>"
  let ?m' = "\<lparr>domain_name = Some ''example.com'', domain_ip = Some ''127.0.0.1'',
               domain_id = None\<rparr>"
  let ?created = "\<lparr>status_code = 201,
                    json = JObj [(''domain'', JObj [(''name'', JStr ''my.example.com'')])]\<rparr>"
  let ?refused = "\<lparr>status_code = 422,
                    json = JObj [(''id'', JStr ''unprocessable_entity''),
                                 (''message'', JStr ''Name already exists'')]\<rparr>"
  have h: "post ref_provider ''domains/''
             [(''name'', domain_name ?m), (''ip_address'', domain_ip ?m)]
             (fst (([], []) :: provider world))
     = (Inr ?created,
        [\<lparr>zone_domain = \<lparr>dom_id = 1, dom_name = ''my.example.com''\<rparr>,
          zone_records = [(1, root_A ''127.0.0.1'')]\<rparr>])"
    by code_simp
  have h': "post ref_provider ''domains/''
              [(''name'', domain_name ?m'), (''ip_address'', domain_ip ?m')]
              (fst (example_zone [root_A ''1.2.3.4''], []))
     = (Inr ?refused, example_zone [root_A ''1.2.3.4''])"
    by code_simp
  from add_result [OF h]
  have "fst (add ref_provider ?m ([], [])) = Inr (JObj [(''name'', JStr ''my.example.com'')])"
    by simp
  moreover from add_result [OF h']
  have "fst (add ref_provider ?m' (example_zone [root_A ''1.2.3.4''], []))
     = Inr (JObj [(''id'', JStr ''unprocessable_entity''), (''message'', JStr ''Name already exists'')])"
    by simp
  ultimately show ?thesis by simp
qed

text \<open>
  C5. For every invocation with state present where \<^verbatim>\<open>find\<close> returns not-found, the
  write calls of the invocation are exactly one create call, with the payload
  \<^verbatim>\<open>{name, ip_address}\<close> of the parameters. Where \<^verbatim>\<open>add\<close> returns a payload with
  fields, the invocation is reported as a failure with changed false and the payload's
  message if and only if the payload has the field \<^verbatim>\<open>message\<close>, and it is reported
  as changed true with the payload as the domain if and only if it has not.
\<close>

theorem present_not_found:
  assumes "p_state p = Present" and "required_one_of p"
    and "find H (DoManager p) (s, []) = (Inr None, w1)"
  shows "writes (snd (snd (main H p s))) =
           [Post ''domains/'' [(''name'', p_name p), (''ip_address'', p_ip p)]] \<and>
         (\<forall>kvs w2 msg. add H (DoManager p) w1 = (Inr (JObj kvs), w2) \<longrightarrow>
            (main H p s = (Fail_json False msg, w2) \<longleftrightarrow> map_of kvs ''message'' = Some msg) \<and>
            (main H p s = (Exit_json True (Some (Created (JObj kvs))), w2)
               \<longleftrightarrow> map_of kvs ''message'' = None))"
proof -
  have c: "core H p (s, []) = core_present_missing H (DoManager p) w1"
    using assms(1) by (simp add: core_not_found [OF assms(3)])
  have m: "main H p s =
      (case core_present_missing H (DoManager p) w1 of
         (Inl e, w) \<Rightarrow> (Fail_exception e, w) | (Inr r, w) \<Rightarrow> (r, w))"
    using assms(2) c by (simp add: main_def)
  have "snd (main H p s) = snd (core_present_missing H (DoManager p) w1)"
    by (simp add: m split: prod.splits sum.splits)
  moreover have "writes (snd w1) = []"
    using find_writes [of H "DoManager p" "(s, [])"] assms(3) by (simp add: writes_def)
  ultimately have calls: "writes (snd (snd (main H p s))) =
      [Post ''domains/'' [(''name'', p_name p), (''ip_address'', p_ip p)]]"
    by (simp add: core_present_missing_log writes_append) (simp add: writes_def)
  have res: "(main H p s = (Fail_json False msg, w2) \<longleftrightarrow> map_of kvs ''message'' = Some msg) \<and>
        (main H p s = (Exit_json True (Some (Created (JObj kvs))), w2)
               \<longleftrightarrow> map_of kvs ''message'' = None)"
    if "add H (DoManager p) w1 = (Inr (JObj kvs), w2)" for kvs w2 msg
    using that by (cases "map_of kvs ''message''") (auto simp: m core_present_missing_def)
  from calls res show ?thesis by blast
qed

theorem present_not_found_witness:
  "main ref_provider
     \<lparr>p_state = Present, p_name = Some ''my.example.com'', p_id = None, p_ip = Some ''127.0.0.1''\<rparr> []
     = (Exit_json True (Some (Created (JObj [(''name'', JStr ''my.example.com'')]))),
        ([\<lparr>zone_domain = \<lparr>dom_id = 1, dom_name = ''my.example.com''\<rparr>,
           zone_records = [(1, root_A ''127.0.0.1'')]\<rparr>],
         [Post ''domains/'' [(''name'', Some ''my.example.com''), (''ip_address'', Some ''127.0.0.1'')]])) \<and>
   main ref_provider
     \<lparr>p_state = Present, p_name = Some ''example.com'', p_id = None, p_ip = Some ''127.0.0.1''\<rparr>
     (example_zone [root_A ''1.2.3.4''])
     = (Fail_json False (JStr ''Name already exists''),
        (example_zone [root_A ''1.2.3.4''],
         [Post ''domains/'' [(''name'', Some ''example.com''), (''ip_address'', Some ''127.0.0.1'')]]))"
proof -
  let ?p = "\<lparr>p_state = Present, p_name = Some ''my.example.com'', p_id = None,
              p_ip = Some ''127.0.0.1''\<rparr>"
  let ?w2 = "([\<lparr>zone_domain = \<lparr>dom_id = 1, dom_name = ''my.example.com''\<rparr>,
                zone_records = [(1, root_A ''127.0.0.1'')]\<rparr>],
              [Post ''domains/'' [(''name'', Some ''my.example.com''),
                                  (''ip_address'', Some ''127.0.0.1'')]])"
  have h1: "p_state ?p = Present" by simp
  have h2: "required_one_of ?p" by code_simp
  have h3: "find ref_provider (DoManager ?p) ([], []) = (Inr None, ([], []))" by code_simp
  have h4: "add ref_provider (DoManager ?p) ([], [])
      = (Inr (JObj [(''name'', JStr ''my.example.com'')]), ?w2)"
    by code_simp
  have a: "main ref_provider ?p []
      = (Exit_json True (Some (Created (JObj [(''name'', JStr ''my.example.com'')]))), ?w2)"
    using present_not_found [OF h1 h2 h3] h4 by simp
  let ?q = "\<lparr>p_state = Present, p_name = Some ''example.com'', p_id = None,
              p_ip = Some ''127.0.0.1''\<rparr>"
  let ?v1 = "(example_zone [root_A ''1.2.3.4''], [])"
  let ?v2 = "(example_zone [root_A ''1.2.3.4''],
              [Post ''domains/'' [(''name'', Some ''example.com''),
                                  (''ip_address'', Some ''127.0.0.1'')]])"
  have k1: "p_state ?q = Present" by simp
  have k2: "required_one_of ?q" by code_simp
  have k3: "find ref_provider (DoManager ?q) (example_zone [root_A ''1.2.3.4''], [])
      = (Inr None, ?v1)"
    by code_simp
  have k4: "add ref_provider (DoManager ?q) ?v1
      = (Inr (JObj [(''id'', JStr ''unprocessable_entity''),
                    (''message'', JStr ''Name already exists'')]), ?v2)"
    by code_simp
  have b: "main ref_provider ?q (example_zone [root_A ''1.2.3.4''])
      = (Fail_json False (JStr ''Name already exists''), ?v2)"
    using present_not_found [OF k1 k2 k3] k4 by simp
  from a b show ?thesis by simp
qed

subsection \<open>State absent\<close>

text \<open>
  C8. For every invocation with state absent where \<^verbatim>\<open>find\<close> returns not-found, the
  invocation reports a failure with changed false and the message of the source,
  \<^verbatim>\<open>"Domain not found."\<close>, and it issues no write call, so no delete call.
\<close>

theorem absent_not_found:
  assumes "p_state p = Absent" and "required_one_of p"
    and "find H (DoManager p) (s, []) = (Inr None, w1)"
  shows "main H p s = (Fail_json False (JStr ''Domain not found.''), w1) \<and>
         writes (snd w1) = []"
proof -
  have "main H p s = (Fail_json False (JStr ''Domain not found.''), w1)"
    using assms by (simp add: main_def core_not_found [OF assms(3)])
  moreover have "writes (snd w1) = []"
    using find_writes [of H "DoManager p" "(s, [])"] assms(3) by (simp add: writes_def)
  ultimately show ?thesis by simp
qed

theorem absent_not_found_witness:
  "main ref_provider
     \<lparr>p_state = Absent, p_name = Some ''other.example'', p_id = Some 9, p_ip = None\<rparr>
     (example_zone [root_A ''1.2.3.4''])
   = (Fail_json False (JStr ''Domain not found.''),
      (example_zone [root_A ''1.2.3.4''], [Get ''domains/'']))"
proof -
  let ?p = "\<lparr>p_state = Absent, p_name = Some ''other.example'', p_id = Some 9, p_ip = None\<rparr>"
  have h1: "p_state ?p = Absent" by simp
  have h2: "required_one_of ?p" by code_simp
  have h3: "find ref_provider (DoManager ?p) (example_zone [root_A ''1.2.3.4''], [])
      = (Inr None, (example_zone [root_A ''1.2.3.4''], [Get ''domains/'']))"
    by code_simp
  from absent_not_found [OF h1 h2 h3] show ?thesis by simp
qed

text \<open>
  C7. For every invocation with state absent where \<^verbatim>\<open>find\<close> returns a domain and the
  helper answers the delete call without raising, whatever the answer \<open>r\<close> is:
  \<^verbatim>\<open>destroy_domain\<close> issues the delete call and returns \<^verbatim>\<open>True\<close>, the reported result
  is changed true, the provider is left in the state \<open>s2\<close> that the delete call
  produced, the log of the invocation is the listing call of \<^verbatim>\<open>find\<close> followed by the
  delete call, and so its write calls are exactly one delete call.
\<close>

theorem absent_found:
  assumes "p_state p = Absent"
    and "find H (DoManager p) (s, []) = (Inr (Some d), w1)"
    and "delete H (''domains/'' @ fmt_int (p_id p)) (fst w1) = (Inr r, s2)"
  shows "destroy_domain H (DoManager p) w1 =
           (Inr True, (s2, snd w1 @ [Delete (''domains/'' @ fmt_int (p_id p))])) \<and>
         main H p s =
           (Exit_json True None,
            (s2, [Get ''domains/'', Delete (''domains/'' @ fmt_int (p_id p))])) \<and>
         writes (snd (snd (main H p s))) = [Delete (''domains/'' @ fmt_int (p_id p))]"
proof -
  have both: "p_name p \<noteq> None" "p_id p \<noteq> None" and log1: "snd w1 = [Get ''domains/'']"
    using find_found [OF assms(2)] by simp_all
  have req: "required_one_of p" using both by (simp add: required_one_of_iff)
  have dd: "destroy_domain H (DoManager p) w1 =
      (Inr True, (s2, snd w1 @ [Delete (''domains/'' @ fmt_int (p_id p))]))"
    using destroy_domain_ok [of H "DoManager p" w1 r s2] assms(3) by simp
  have "main H p s =
      (Exit_json True None, (s2, snd w1 @ [Delete (''domains/'' @ fmt_int (p_id p))]))"
    using assms(1) req by (simp add: main_def core_found [OF assms(2)] dd)
  then have m: "main H p s =
      (Exit_json True None, (s2, [Get ''domains/'', Delete (''domains/'' @ fmt_int (p_id p))]))"
    by (simp add: log1)
  have "writes (snd (snd (main H p s))) = [Delete (''domains/'' @ fmt_int (p_id p))]"
    by (simp add: m writes_def)
  with dd m show ?thesis by simp
qed

theorem absent_found_witness:
  "destroy_domain ref_provider
     (DoManager \<lparr>p_state = Absent, p_name = Some ''example.com'', p_id = Some 1, p_ip = None\<rparr>)
     (example_zone [root_A ''1.2.3.4''], [Get ''domains/''])
     = (Inr True, ([], [Get ''domains/'', Delete ''domains/1''])) \<and>
   main ref_provider
     \<lparr>p_state = Absent, p_name = Some ''example.com'', p_id = Some 1, p_ip = None\<rparr>
     (example_zone [root_A ''1.2.3.4''])
     = (Exit_json True None, ([], [Get ''domains/'', Delete ''domains/1''])) \<and>
   writes (snd (snd (main ref_provider
          \<lparr>p_state = Absent, p_name = Some ''example.com'', p_id = Some 1, p_ip = None\<rparr>
          (example_zone [root_A ''1.2.3.4'']))))
     = [Delete ''domains/1'']"
proof -
  let ?p = "\<lparr>p_state = Absent, p_name = Some ''example.com'', p_id = Some 1, p_ip = None\<rparr>"
  have h1: "p_state ?p = Absent" by simp
  have h2: "find ref_provider (DoManager ?p) (example_zone [root_A ''1.2.3.4''], [])
      = (Inr (Some \<lparr>dom_id = 1, dom_name = ''example.com''\<rparr>),
         (example_zone [root_A ''1.2.3.4''], [Get ''domains/'']))"
    by code_simp
  have h3: "delete ref_provider (''domains/'' @ fmt_int (p_id ?p))
       (fst (example_zone [root_A ''1.2.3.4''], [Get ''domains/''])) = (Inr JNull, [])"
    by code_simp
  have f: "''domains/'' @ fmt_int (p_id ?p) = ''domains/1''" by code_simp
  from absent_found [OF h1 h2 h3] show ?thesis unfolding f by (simp add: writes_def)
qed

subsection \<open>State present, domain found\<close>

text \<open>
  C1. Where the domain is found and no record has name \<^verbatim>\<open>"@"\<close> and type \<^verbatim>\<open>'A'\<close>, the
  invocation should fail with an explicit report that the record is missing. The run
  below has the domain \<^verbatim>\<open>example.com\<close> with the one record \<^verbatim>\<open>www\<close>: \<^verbatim>\<open>core\<close> reads
  \<^verbatim>\<open>at_record.data\<close> with \<^verbatim>\<open>at_record\<close> still \<^verbatim>\<open>None\<close>, and what is reported is the
  \<^verbatim>\<open>AttributeError\<close> of that read, through the handler of \<^verbatim>\<open>main\<close>.
  (\<open>core_present_found_missing\<close> and \<open>at_record_loop_None\<close> above give the same for
  every such input.)
\<close>

theorem missing_root_record_run:
  "main ref_provider
     \<lparr>p_state = Present, p_name = Some ''example.com'', p_id = Some 1, p_ip = Some ''1.2.3.4''\<rparr>
     (example_zone [\<lparr>rec_name = ''www'', rec_type = ''A'', rec_data = ''1.2.3.4''\<rparr>])
   = (Fail_exception AttributeError,
      (example_zone [\<lparr>rec_name = ''www'', rec_type = ''A'', rec_data = ''1.2.3.4''\<rparr>],
       [Get ''domains/'', Get ''domains/1/records/'']))"
  by code_simp

text \<open>
  C2. Where the domain is found and the data of its root A record is the desired ip, no
  write call should be issued and the result changed false should be reported. The run
  below has the record at \<^verbatim>\<open>1.2.3.4\<close> and the desired ip \<^verbatim>\<open>1.2.3.4\<close>: the two listing
  calls are the whole log, and \<^verbatim>\<open>core\<close> returns without calling \<^verbatim>\<open>exit_json\<close> or
  \<^verbatim>\<open>fail_json\<close>, so no result is reported. (\<open>core_present_found_equal\<close> above gives
  the same for every such input.)
\<close>

theorem unchanged_ip_run:
  "main ref_provider
     \<lparr>p_state = Present, p_name = Some ''example.com'', p_id = Some 1, p_ip = Some ''1.2.3.4''\<rparr>
     (example_zone [root_A ''1.2.3.4''])
   = (No_report,
      (example_zone [root_A ''1.2.3.4''], [Get ''domains/'', Get ''domains/1/records/'']))"
  by code_simp

text \<open>
  C4. Where the domain is found and the data of its root A record differs from the
  desired ip, one update call should be issued, changed true reported, and the record's
  data be the desired ip afterwards. The run below has the record at \<^verbatim>\<open>1.2.3.4\<close> and
  the desired ip \<^verbatim>\<open>5.6.7.8\<close>: the one update call is addressed to the record
  \<^verbatim>\<open>5.6.7.8\<close> of the domain (the ip stands where the record's id belongs) and its
  payload is the domain's name alone; the provider has no such record, its state is
  unchanged (the data is still \<^verbatim>\<open>1.2.3.4\<close>), and its answer has no
  \<^verbatim>\<open>domain_record\<close>, so the invocation reports the \<^verbatim>\<open>KeyError\<close>.
  (\<open>edit_domain_record_log\<close> above gives the request for every input.)
\<close>

theorem changed_ip_run:
  "main ref_provider
     \<lparr>p_state = Present, p_name = Some ''example.com'', p_id = Some 1, p_ip = Some ''5.6.7.8''\<rparr>
     (example_zone [root_A ''1.2.3.4''])
   = (Fail_exception (KeyError ''domain_record''),
      (example_zone [root_A ''1.2.3.4''],
       [Get ''domains/'', Get ''domains/1/records/'',
        Put ''domains/1/records/5.6.7.8'' [(''name'', Some ''example.com'')]]))"
  by code_simp

end
